theory Spec2Isabelle
  imports Main
begin

section \<open>Data model\<close>

text \<open>
  The development embeds the class \<open>ProjectManager\<close> of \<open>main.py\<close>. The manager owns two
  dictionaries, \<open>self.processes\<close> (project name to \<open>subprocess.Popen\<close> handle) and
  \<open>self.project_configs\<close> (project name to a metadata dictionary), and acts on the operating
  system: directories, log files, the document \<open>projects/projects.json\<close>, child processes and
  the clock. All of it is one explicit state that every operation takes and returns.
\<close>

text \<open>A value stored in a metadata dictionary: a string or a number (the pid).\<close>

datatype val = Str string | Num nat

type_synonym metadata = "string \<rightharpoonup> val"

type_synonym pid = nat

text \<open>
  The exceptions the modelled code paths can meet; \<open>exn_str\<close> is Python's \<open>str(e)\<close>.
  \<open>SignalNotPermitted\<close> is the \<open>PermissionError\<close> of \<open>os.kill\<close>, which names no path.
\<close>

datatype exn =
    KeyError string
  | AttributeError
  | TypeError
  | IndexError
  | FileNotFoundError string
  | FileExistsError string
  | IsADirectoryError string
  | NotADirectoryError string
  | PermissionError string
  | SignalNotPermitted

fun exn_str :: "exn \<Rightarrow> string" where
  "exn_str (KeyError k) = [CHR 0x27] @ k @ [CHR 0x27]"
| "exn_str AttributeError =
     [CHR 0x27] @ ''int'' @ [CHR 0x27] @ '' object has no attribute '' @
     [CHR 0x27] @ ''split'' @ [CHR 0x27]"
| "exn_str TypeError = ''expected str, bytes or os.PathLike object, not int''"
| "exn_str IndexError = ''list index out of range''"
| "exn_str (FileNotFoundError p) =
     ''[Errno 2] No such file or directory: '' @ [CHR 0x27] @ p @ [CHR 0x27]"
| "exn_str (FileExistsError p) = ''[Errno 17] File exists: '' @ [CHR 0x27] @ p @ [CHR 0x27]"
| "exn_str (IsADirectoryError p) =
     ''[Errno 21] Is a directory: '' @ [CHR 0x27] @ p @ [CHR 0x27]"
| "exn_str (NotADirectoryError p) =
     ''[Errno 20] Not a directory: '' @ [CHR 0x27] @ p @ [CHR 0x27]"
| "exn_str (PermissionError p) =
     ''[Errno 13] Permission denied: '' @ [CHR 0x27] @ p @ [CHR 0x27]"
| "exn_str SignalNotPermitted = ''[Errno 1] Operation not permitted''"

text \<open>
  A child process as the operating system sees it: the command line and working directory
  it was launched with, the file its combined output goes to, and whether it is still
  executing (\<open>poll()\<close> returns \<open>None\<close> exactly then).
\<close>

datatype signal = SIGTERM | SIGKILL

record child =
  argv :: "string list"
  cwd :: string
  out_path :: string
  running :: bool

text \<open>
  The state. \<open>processes\<close> and \<open>project_configs\<close> are the two attributes of the manager; a
  \<open>Popen\<close> handle is identified with the pid of its child. The other fields are the
  environment:
  \<^item> \<open>dirs\<close>: the directories that exist; \<open>files\<close>: the text files that exist, each as the
    list of lines \<open>readlines()\<close> returns (every line with its terminator);
  \<^item> \<open>denied\<close>: the paths on which the operating system refuses to create, open or remove
    (permissions, a missing parent, a full disk);
  \<^item> \<open>projects_json\<close>: the content of \<open>projects/projects.json\<close>, \<open>None\<close> while the file is
    absent;
  \<^item> \<open>children\<close>: the child processes launched so far, by pid; \<open>next_pid\<close>: the pid the next
    launch gets; \<open>programs\<close>: the executables the system can launch;
  \<^item> \<open>term_delay\<close>: for each pid, the time its process takes to exit after a termination
    request; \<open>sig_denied\<close>: the pids the manager may not signal; \<open>signals\<close>: the signals
    delivered so far, oldest first;
  \<^item> \<open>clock\<close>: the current time; \<open>error_log\<close>: the lines written by \<open>logger.error\<close>.
\<close>

record state =
  processes :: "string \<rightharpoonup> pid"
  project_configs :: "string \<rightharpoonup> metadata"
  dirs :: "string set"
  files :: "string \<rightharpoonup> string list"
  denied :: "string set"
  projects_json :: "(string \<rightharpoonup> metadata) option"
  children :: "pid \<rightharpoonup> child"
  next_pid :: pid
  programs :: "string set"
  term_delay :: "pid \<Rightarrow> nat"
  sig_denied :: "pid set"
  signals :: "(pid \<times> signal) list"
  clock :: nat
  error_log :: "string list"

section \<open>Paths and the file system\<close>

definition PROJECTS_DIR :: string where
  "PROJECTS_DIR = ''projects''"

definition LOGS_DIR :: string where
  "LOGS_DIR = ''logs''"

text \<open>\<open>d / n\<close> of \<open>pathlib\<close>, for a relative name \<open>n\<close>.\<close>

definition path_join :: "string \<Rightarrow> string \<Rightarrow> string" where
  "path_join d n = d @ ''/'' @ n"

definition config_file :: string where
  "config_file = path_join PROJECTS_DIR ''projects.json''"

definition log_file_of :: "string \<Rightarrow> string" where
  "log_file_of name = path_join (path_join LOGS_DIR name) ''output.log''"

text \<open>\<open>Path.exists()\<close>.\<close>

definition path_exists :: "state \<Rightarrow> string \<Rightarrow> bool" where
  "path_exists s p = (p \<in> dirs s \<or> files s p \<noteq> None)"

text \<open>\<open>Path.mkdir(exist_ok=True)\<close>: no error when the directory is already there.\<close>

definition mkdir_exist_ok :: "string \<Rightarrow> state \<Rightarrow> exn + state" where
  "mkdir_exist_ok p s =
     (if p \<in> dirs s then Inr s
      else if files s p \<noteq> None then Inl (FileExistsError p)
      else if p \<in> denied s then Inl (PermissionError p)
      else Inr (s\<lparr>dirs := insert p (dirs s)\<rparr>))"

text \<open>\<open>open(p, 'w')\<close>: creates the file, or truncates it to length zero when it exists.\<close>

definition open_w :: "string \<Rightarrow> state \<Rightarrow> exn + state" where
  "open_w p s =
     (if p \<in> dirs s then Inl (IsADirectoryError p)
      else if p \<in> denied s then Inl (PermissionError p)
      else Inr (s\<lparr>files := (files s)(p \<mapsto> [])\<rparr>))"

text \<open>\<open>open(p, 'r')\<close> followed by \<open>readlines()\<close>.\<close>

definition read_lines :: "string \<Rightarrow> state \<Rightarrow> exn + string list" where
  "read_lines p s =
     (if p \<in> dirs s then Inl (IsADirectoryError p)
      else if p \<in> denied s then Inl (PermissionError p)
      else (case files s p of None \<Rightarrow> Inl (FileNotFoundError p) | Some ls \<Rightarrow> Inr ls))"

section \<open>Log tail\<close>

text \<open>
  Python's slice \<open>xs[i:]\<close> for any integer \<open>i\<close>: a negative \<open>i\<close> counts from the end, and
  both ends are clamped to the list.
\<close>

definition slice_from :: "'a list \<Rightarrow> int \<Rightarrow> 'a list" where
  "slice_from xs i =
     (let n = int (length xs);
          j = (if i < 0 then max (n + i) 0 else min i n)
      in drop (nat j) xs)"

text \<open>
  \<open>get_project_logs(name, lines)\<close>. It reads and returns text, and changes nothing. The
  Python \<open>x or y\<close> on strings yields \<open>y\<close> exactly when \<open>x\<close> is the empty string.
\<close>

definition get_project_logs :: "string \<Rightarrow> int \<Rightarrow> state \<Rightarrow> string" where
  "get_project_logs name lines s =
     (let log_file = log_file_of name in
      if \<not> path_exists s log_file then ''No logs found''
      else (case read_lines log_file s of
              Inl e \<Rightarrow> ''Error reading logs: '' @ exn_str e
            | Inr log_lines \<Rightarrow>
                (let joined = concat (slice_from log_lines (- lines))
                 in if joined = [] then ''Logs are empty'' else joined)))"


section \<open>Project Store\<close>

definition logger_error :: "string \<Rightarrow> state \<Rightarrow> state" where
  "logger_error line s = s\<lparr>error_log := error_log s @ [line]\<rparr>"

text \<open>
  \<open>save_projects\<close>: rewrite \<open>projects.json\<close> with the whole collection. An exception of
  the write is caught inside the function and logged; nothing is raised or returned.
\<close>

definition save_projects :: "state \<Rightarrow> state" where
  "save_projects s =
     (if config_file \<in> denied s
      then logger_error (''Error saving projects: '' @ exn_str (PermissionError config_file)) s
      else s\<lparr>projects_json := Some (project_configs s)\<rparr>)"

text \<open>\<open>load_projects\<close>, and \<open>__init__\<close>, which starts from two empty dictionaries.\<close>

definition load_projects :: "state \<Rightarrow> state" where
  "load_projects s =
     (case projects_json s of
        None \<Rightarrow> s
      | Some m \<Rightarrow>
          if config_file \<in> denied s
          then logger_error (''Error loading projects: '' @ exn_str (PermissionError config_file))
                 (s\<lparr>project_configs := Map.empty\<rparr>)
          else s\<lparr>project_configs := m\<rparr>)"

definition init :: "state \<Rightarrow> state" where
  "init s = load_projects (s\<lparr>processes := Map.empty, project_configs := Map.empty\<rparr>)"

definition default_run_command :: string where
  "default_run_command = ''python3 main.py''"

text \<open>
  The metadata \<open>create_project\<close> writes. \<open>created_at\<close> is the reading of the clock (the source
  stores its ISO rendering).
\<close>

definition new_metadata :: "string \<Rightarrow> string \<Rightarrow> nat \<Rightarrow> metadata" where
  "new_metadata name project_path t =
     [''name'' \<mapsto> Str name,
      ''path'' \<mapsto> Str project_path,
      ''run_command'' \<mapsto> Str default_run_command,
      ''created_at'' \<mapsto> Num t,
      ''status'' \<mapsto> Str ''stopped'']"

text \<open>\<open>create_project\<close>: there is no test whether the name is already in the collection.\<close>

definition create_project :: "string \<Rightarrow> state \<Rightarrow> bool \<times> state" where
  "create_project name s =
     (let project_path = path_join PROJECTS_DIR name in
      case mkdir_exist_ok project_path s of
        Inl e \<Rightarrow> (False, logger_error (''Error creating project '' @ name @ '': '' @ exn_str e) s)
      | Inr s1 \<Rightarrow>
          (True,
           save_projects
             (s1\<lparr>project_configs :=
                   (project_configs s1)(name \<mapsto> new_metadata name project_path (clock s1))\<rparr>)))"

definition project_exists :: "state \<Rightarrow> string \<Rightarrow> bool" where
  "project_exists s name = (project_configs s name \<noteq> None)"

text \<open>\<open>get_project_path\<close>: \<open>Path(self.project_configs[name]['path'])\<close>.\<close>

definition get_project_path :: "string \<Rightarrow> state \<Rightarrow> exn + string" where
  "get_project_path name s =
     (case project_configs s name of
        None \<Rightarrow> Inl (KeyError name)
      | Some cfg \<Rightarrow>
          (case cfg ''path'' of
             None \<Rightarrow> Inl (KeyError ''path'')
           | Some (Str p) \<Rightarrow> Inr p
           | Some (Num n) \<Rightarrow> Inl TypeError))"

definition update_run_command :: "string \<Rightarrow> string \<Rightarrow> state \<Rightarrow> bool \<times> state" where
  "update_run_command name command s =
     (case project_configs s name of
        None \<Rightarrow> (False, s)
      | Some cfg \<Rightarrow>
          (True,
           save_projects
             (s\<lparr>project_configs :=
                  (project_configs s)(name \<mapsto> cfg(''run_command'' \<mapsto> Str command))\<rparr>)))"

section \<open>Child processes\<close>

text \<open>\<open>process.poll() is None\<close>: the child behind the handle is still executing.\<close>

definition poll_is_None :: "state \<Rightarrow> pid \<Rightarrow> bool" where
  "poll_is_None s h = (case children s h of None \<Rightarrow> False | Some c \<Rightarrow> running c)"

text \<open>The child behind a handle has exited.\<close>

definition exited :: "pid \<Rightarrow> state \<Rightarrow> state" where
  "exited h s =
     s\<lparr>children := (children s)(h := map_option (\<lambda>c. c\<lparr>running := False\<rparr>) (children s h))\<rparr>"

text \<open>Whitespace for \<open>str.split()\<close> and \<open>str.strip()\<close>, on ASCII text.\<close>

definition is_space :: "char \<Rightarrow> bool" where
  "is_space c =
     (c \<in> set [CHR 0x20, CHR 0x09, CHR 0x0A, CHR 0x0B, CHR 0x0C, CHR 0x0D,
                CHR 0x1C, CHR 0x1D, CHR 0x1E, CHR 0x1F])"

text \<open>\<open>str.split()\<close> with no argument: the maximal runs of non-whitespace.\<close>

fun split_acc :: "string \<Rightarrow> string \<Rightarrow> string list" where
  "split_acc w [] = (if w = [] then [] else [rev w])"
| "split_acc w (c # cs) =
     (if is_space c
      then (if w = [] then split_acc [] cs else rev w # split_acc [] cs)
      else split_acc (c # w) cs)"

definition split_ws :: "string \<Rightarrow> string list" where
  "split_ws str = split_acc [] str"

text \<open>
  \<open>subprocess.Popen(args, cwd=dir, stdout=f, stderr=STDOUT)\<close>, where \<open>f\<close> is the file
  already opened at \<open>out\<close>. The new child gets the next pid and is executing.
\<close>

definition Popen :: "string list \<Rightarrow> string \<Rightarrow> string \<Rightarrow> state \<Rightarrow> exn + (pid \<times> state)" where
  "Popen args dir out s =
     (case args of
        [] \<Rightarrow> Inl IndexError
      | prog # _ \<Rightarrow>
          if dir \<notin> dirs s then Inl (FileNotFoundError dir)
          else if prog \<notin> programs s then Inl (FileNotFoundError prog)
          else (let p = next_pid s in
                Inr (p,
                     s\<lparr>children :=
                          (children s)(p \<mapsto> \<lparr>argv = args, cwd = dir, out_path = out, running = True\<rparr>),
                        next_pid := Suc p\<rparr>)))"

text \<open>
  \<open>process.terminate()\<close> sends \<open>SIGTERM\<close> and \<open>process.kill()\<close> sends \<open>SIGKILL\<close>: the signal
  is delivered, or the call raises.
\<close>

definition send_signal :: "pid \<Rightarrow> signal \<Rightarrow> state \<Rightarrow> exn + state" where
  "send_signal h sg s =
     (if h \<in> sig_denied s then Inl SignalNotPermitted
      else Inr (s\<lparr>signals := signals s @ [(h, sg)]\<rparr>))"

text \<open>
  \<open>process.wait(timeout=t)\<close> after a termination request: the child exits after its
  \<open>term_delay\<close> when that is within \<open>t\<close> (result \<open>True\<close>); otherwise \<open>t\<close> time units pass and
  \<open>TimeoutExpired\<close> is raised (result \<open>False\<close>).
\<close>

definition wait_timeout :: "pid \<Rightarrow> nat \<Rightarrow> state \<Rightarrow> bool \<times> state" where
  "wait_timeout h t s =
     (if term_delay s h \<le> t
      then (True, exited h (s\<lparr>clock := clock s + term_delay s h\<rparr>))
      else (False, s\<lparr>clock := clock s + t\<rparr>))"

text \<open>\<open>process.wait()\<close> after \<open>process.kill()\<close>: the child is gone.\<close>

definition wait_killed :: "pid \<Rightarrow> state \<Rightarrow> state" where
  "wait_killed h s = exited h s"

text \<open>\<open>time.sleep(t)\<close>.\<close>

definition sleep :: "nat \<Rightarrow> state \<Rightarrow> state" where
  "sleep t s = s\<lparr>clock := clock s + t\<rparr>"

text \<open>
  A step of the environment, not of the manager: a child exits on its own (it crashes or
  finishes).
\<close>

definition child_exits :: "pid \<Rightarrow> state \<Rightarrow> state" where
  "child_exits h s = exited h s"

section \<open>Supervisor\<close>

text \<open>
  The message of a \<open>(bool, str)\<close> result, one constructor for each text the source builds:
  \<^item> \<open>ProjectNotFound\<close>: "Project not found";
  \<^item> \<open>AlreadyRunning\<close>: "Project is already running";
  \<^item> \<open>StartedWithPID p\<close>: "Project started with PID p";
  \<^item> \<open>ErrorReply e\<close>: "Error: " followed by \<open>str(e)\<close>;
  \<^item> \<open>NotRunning\<close>: "Project is not running";
  \<^item> \<open>StoppedSuccessfully\<close>: "Project stopped successfully";
  \<^item> \<open>FailedToStopForRestart\<close>: "Failed to stop project for restart";
  \<^item> \<open>UnableToStopBeforeDeletion m\<close>: "Unable to stop project before deletion: m";
  \<^item> \<open>DeletedSuccessfully n\<close>: "Project 'n' deleted successfully.";
  \<^item> \<open>ErrorDeleting e\<close>: "Error deleting project: " followed by \<open>str(e)\<close>.
\<close>

datatype reply =
    ProjectNotFound
  | AlreadyRunning
  | StartedWithPID pid
  | ErrorReply exn
  | NotRunning
  | StoppedSuccessfully
  | FailedToStopForRestart
  | UnableToStopBeforeDeletion reply
  | DeletedSuccessfully string
  | ErrorDeleting exn

text \<open>
  The body of the \<open>try\<close> block of \<open>start_project\<close>. The result is the exception raised or the
  new pid, with the state reached at that point: what was done before an exception stays
  done. The arguments of \<open>Popen\<close> are evaluated in order before the call, so the command is
  split first and the log file is opened with mode \<open>'w'\<close> before the launch is attempted.
\<close>

definition start_body :: "string \<Rightarrow> state \<Rightarrow> (exn + pid) \<times> state" where
  "start_body name s =
     (case get_project_path name s of
        Inl e \<Rightarrow> (Inl e, s)
      | Inr project_path \<Rightarrow>
     (case project_configs s name of
        None \<Rightarrow> (Inl (KeyError name), s)
      | Some cfg \<Rightarrow>
     (let run_command = (case cfg ''run_command'' of
                           None \<Rightarrow> Str default_run_command
                         | Some v \<Rightarrow> v);
          project_logs_dir = path_join LOGS_DIR name
      in
     (case mkdir_exist_ok project_logs_dir s of
        Inl e \<Rightarrow> (Inl e, s)
      | Inr s1 \<Rightarrow>
     (let log_file = path_join project_logs_dir ''output.log'' in
     (case run_command of
        Num n \<Rightarrow> (Inl AttributeError, s1)
      | Str command \<Rightarrow>
     (case open_w log_file s1 of
        Inl e \<Rightarrow> (Inl e, s1)
      | Inr s2 \<Rightarrow>
     (case Popen (split_ws command) project_path log_file s2 of
        Inl e \<Rightarrow> (Inl e, s2)
      | Inr (p, s3) \<Rightarrow>
          (Inr p,
           save_projects
             (s3\<lparr>processes := (processes s3)(name \<mapsto> p),
                 project_configs :=
                   (project_configs s3)
                     (name \<mapsto> cfg(''status'' \<mapsto> Str ''running'', ''pid'' \<mapsto> Num p))\<rparr>))))))))))"

definition start_project :: "string \<Rightarrow> state \<Rightarrow> (bool \<times> reply) \<times> state" where
  "start_project name s =
     (if \<not> project_exists s name then ((False, ProjectNotFound), s)
      else if (case processes s name of None \<Rightarrow> False | Some h \<Rightarrow> poll_is_None s h)
      then ((False, AlreadyRunning), s)
      else (case start_body name s of
              (Inl e, s') \<Rightarrow>
                ((False, ErrorReply e),
                 logger_error (''Error starting project '' @ name @ '': '' @ exn_str e) s')
            | (Inr p, s') \<Rightarrow> ((True, StartedWithPID p), s')))"

text \<open>The grace period of \<open>stop_project\<close>: \<open>process.wait(timeout=10)\<close>.\<close>

definition grace_period :: nat where
  "grace_period = 10"

text \<open>
  The first half of the \<open>try\<close> block of \<open>stop_project\<close>: when the child is still executing,
  ask it to terminate, wait for the grace period, and kill it when the wait times out.
\<close>

definition terminate_child :: "pid \<Rightarrow> state \<Rightarrow> (exn + unit) \<times> state" where
  "terminate_child h s =
     (if poll_is_None s h
      then (case send_signal h SIGTERM s of
              Inl e \<Rightarrow> (Inl e, s)
            | Inr s1 \<Rightarrow>
                (case wait_timeout h grace_period s1 of
                   (True, s2) \<Rightarrow> (Inr (), s2)
                 | (False, s2) \<Rightarrow>
                     (case send_signal h SIGKILL s2 of
                        Inl e \<Rightarrow> (Inl e, s2)
                      | Inr s3 \<Rightarrow> (Inr (), wait_killed h s3))))
      else (Inr (), s))"

text \<open>
  The second half: drop the handle, set the status, delete the \<open>pid\<close> key when it is
  there, save. \<open>self.project_configs[name]\<close> raises \<open>KeyError\<close> for a name the collection
  does not have, after the handle is dropped.
\<close>

definition stop_bookkeeping :: "string \<Rightarrow> state \<Rightarrow> (exn + unit) \<times> state" where
  "stop_bookkeeping name s =
     (let s1 = s\<lparr>processes := (processes s)(name := None)\<rparr> in
      case project_configs s1 name of
        None \<Rightarrow> (Inl (KeyError name), s1)
      | Some cfg \<Rightarrow>
          (let cfg1 = cfg(''status'' \<mapsto> Str ''stopped'');
               cfg2 = (if cfg1 ''pid'' \<noteq> None then cfg1(''pid'' := None) else cfg1)
           in (Inr (),
               save_projects (s1\<lparr>project_configs := (project_configs s1)(name \<mapsto> cfg2)\<rparr>))))"

definition stop_project :: "string \<Rightarrow> state \<Rightarrow> (bool \<times> reply) \<times> state" where
  "stop_project name s =
     (case processes s name of
        None \<Rightarrow> ((False, NotRunning), s)
      | Some h \<Rightarrow>
          (case terminate_child h s of
             (Inl e, s1) \<Rightarrow>
               ((False, ErrorReply e),
                logger_error (''Error stopping project '' @ name @ '': '' @ exn_str e) s1)
           | (Inr u, s1) \<Rightarrow>
               (case stop_bookkeeping name s1 of
                  (Inl e, s2) \<Rightarrow>
                    ((False, ErrorReply e),
                     logger_error (''Error stopping project '' @ name @ '': '' @ exn_str e) s2)
                | (Inr v, s2) \<Rightarrow> ((True, StoppedSuccessfully), s2))))"

text \<open>The pause of \<open>restart_project\<close>: \<open>time.sleep(2)\<close>.\<close>

definition restart_pause :: nat where
  "restart_pause = 2"

definition restart_project :: "string \<Rightarrow> state \<Rightarrow> (bool \<times> reply) \<times> state" where
  "restart_project name s =
     (case stop_project name s of
        ((stop_success, m), s1) \<Rightarrow>
          if stop_success \<or> processes s1 name = None
          then start_project name (sleep restart_pause s1)
          else ((False, FailedToStopForRestart), s1))"

text \<open>
  The text of \<open>get_project_status\<close>: "Not found", "Running (PID: p)" or "Stopped", each
  after its symbol.
\<close>

datatype status_text = StatusNotFound | StatusRunning pid | StatusStopped

definition get_project_status :: "string \<Rightarrow> state \<Rightarrow> status_text \<times> state" where
  "get_project_status name s =
     (case project_configs s name of
        None \<Rightarrow> (StatusNotFound, s)
      | Some cfg \<Rightarrow>
          (case processes s name of
             None \<Rightarrow> (StatusStopped, s)
           | Some h \<Rightarrow>
               if poll_is_None s h then (StatusRunning h, s)
               else (StatusStopped,
                     save_projects
                       (s\<lparr>processes := (processes s)(name := None),
                          project_configs :=
                            (project_configs s)(name \<mapsto> cfg(''status'' \<mapsto> Str ''stopped''))\<rparr>))))"

section \<open>Delete\<close>

text \<open>A path lies under a directory.\<close>

definition under :: "string \<Rightarrow> string \<Rightarrow> bool" where
  "under d p = (take (length d + 1) p = d @ ''/'')"

text \<open>\<open>shutil.rmtree(d)\<close>: the directory goes with everything under it.\<close>

definition rmtree :: "string \<Rightarrow> state \<Rightarrow> exn + state" where
  "rmtree d s =
     (if d \<notin> dirs s then
        (if files s d \<noteq> None then Inl (NotADirectoryError d) else Inl (FileNotFoundError d))
      else if d \<in> denied s then Inl (PermissionError d)
      else Inr (s\<lparr>dirs := {p \<in> dirs s. p \<noteq> d \<and> \<not> under d p},
                 files := (\<lambda>p. if under d p then None else files s p)\<rparr>))"

definition delete_body :: "string \<Rightarrow> state \<Rightarrow> (exn + unit) \<times> state" where
  "delete_body name s =
     (case get_project_path name s of
        Inl e \<Rightarrow> (Inl e, s)
      | Inr project_path \<Rightarrow>
     (case (if path_exists s project_path then rmtree project_path s else Inr s) of
        Inl e \<Rightarrow> (Inl e, s)
      | Inr s1 \<Rightarrow>
     (let project_logs_dir = path_join LOGS_DIR name in
     (case (if path_exists s1 project_logs_dir then rmtree project_logs_dir s1 else Inr s1) of
        Inl e \<Rightarrow> (Inl e, s1)
      | Inr s2 \<Rightarrow>
          (Inr (),
           if project_configs s2 name \<noteq> None
           then save_projects (s2\<lparr>project_configs := (project_configs s2)(name := None)\<rparr>)
           else s2)))))"

definition delete_project :: "string \<Rightarrow> state \<Rightarrow> (bool \<times> reply) \<times> state" where
  "delete_project name s =
     (if \<not> project_exists s name then ((False, ProjectNotFound), s)
      else
        (case (if processes s name \<noteq> None then stop_project name s
               else ((True, StoppedSuccessfully), s)) of
           ((False, message), s1) \<Rightarrow> ((False, UnableToStopBeforeDeletion message), s1)
         | ((True, message), s1) \<Rightarrow>
             (case delete_body name s1 of
                (Inl e, s2) \<Rightarrow>
                  ((False, ErrorDeleting e),
                   logger_error (''Error deleting project '' @ name @ '': '' @ exn_str e) s2)
              | (Inr u, s2) \<Rightarrow> ((True, DeletedSuccessfully name), s2))))"

section \<open>The caller of \<open>create_project\<close>\<close>

text \<open>
  The branch \<open>action == 'new_project'\<close> of \<open>handle_text_input\<close>: strip the text, validate
  it, refuse a name in use, and only then call \<open>create_project\<close>. Strings are ASCII text
  here, so \<open>isalnum\<close> is the ASCII test.
\<close>

definition strip :: "string \<Rightarrow> string" where
  "strip str = rev (dropWhile is_space (rev (dropWhile is_space str)))"

definition is_alnum_char :: "char \<Rightarrow> bool" where
  "is_alnum_char c =
     (let n = of_char c :: nat
      in (48 \<le> n \<and> n \<le> 57) \<or> (65 \<le> n \<and> n \<le> 90) \<or> (97 \<le> n \<and> n \<le> 122))"

definition isalnum :: "string \<Rightarrow> bool" where
  "isalnum str = (str \<noteq> [] \<and> list_all is_alnum_char str)"

definition valid_project_name :: "string \<Rightarrow> bool" where
  "valid_project_name n =
     (n \<noteq> [] \<and> isalnum (filter (\<lambda>c. c \<noteq> CHR ''-'') (filter (\<lambda>c. c \<noteq> CHR ''_'') n)))"

datatype new_project_reply = InvalidName | AlreadyExists | Created | CreateFailed

definition handle_new_project :: "string \<Rightarrow> state \<Rightarrow> new_project_reply \<times> state" where
  "handle_new_project text s =
     (let project_name = strip text in
      if \<not> valid_project_name project_name then (InvalidName, s)
      else if project_exists s project_name then (AlreadyExists, s)
      else (case create_project project_name s of
              (True, s1) \<Rightarrow> (Created, s1)
            | (False, s1) \<Rightarrow> (CreateFailed, s1)))"

section \<open>Notions used by the properties\<close>

text \<open>
  A live Process Table entry: the name has a handle and probing it finds the child
  executing. This is the test \<open>start_project\<close> makes.
\<close>

definition has_live_entry :: "state \<Rightarrow> string \<Rightarrow> bool" where
  "has_live_entry s name =
     (case processes s name of None \<Rightarrow> False | Some h \<Rightarrow> poll_is_None s h)"

text \<open>The stored status of a project is \<open>running\<close>.\<close>

definition status_running :: "state \<Rightarrow> string \<Rightarrow> bool" where
  "status_running s name =
     (case project_configs s name of
        None \<Rightarrow> False
      | Some cfg \<Rightarrow> cfg ''status'' = Some (Str ''running''))"

text \<open>The executing children whose output goes to the log file of a project.\<close>

definition live_children_of :: "state \<Rightarrow> string \<Rightarrow> pid set" where
  "live_children_of s name =
     {p. \<exists>c. children s p = Some c \<and> running c \<and> out_path c = log_file_of name}"

text \<open>
  Every name in the Process Table is in the Project Store (the invariant of the data
  model).
\<close>

definition table_in_store :: "state \<Rightarrow> bool" where
  "table_in_store s = (\<forall>name. processes s name \<noteq> None \<longrightarrow> project_configs s name \<noteq> None)"

text \<open>
  Table, store and children agree:
  \<^item> every name in the table is in the store, and its handle was issued earlier;
  \<^item> every child was issued earlier;
  \<^item> two names never share a handle;
  \<^item> every executing child is the handle of the project whose log it writes;
  \<^item> the stored status of a project is \<open>running\<close> exactly when it has a live entry.
\<close>

definition consistent :: "state \<Rightarrow> bool" where
  "consistent s =
     ((\<forall>name h. processes s name = Some h \<longrightarrow> project_configs s name \<noteq> None \<and> h < next_pid s) \<and>
      (\<forall>p c. children s p = Some c \<longrightarrow> p < next_pid s) \<and>
      (\<forall>n1 n2 h. processes s n1 = Some h \<and> processes s n2 = Some h \<longrightarrow> n1 = n2) \<and>
      (\<forall>p c. children s p = Some c \<and> running c \<longrightarrow>
         (\<exists>name. processes s name = Some p \<and> out_path c = log_file_of name)) \<and>
      (\<forall>name. project_configs s name \<noteq> None \<longrightarrow>
         (status_running s name \<longleftrightarrow> has_live_entry s name)))"





section \<open>Example states\<close>

text \<open>A machine with the two root directories, an interpreter, and nothing else.\<close>

definition fresh :: state where
  "fresh =
     \<lparr>processes = Map.empty, project_configs = Map.empty,
      dirs = {''projects'', ''logs''}, files = Map.empty, denied = {},
      projects_json = None, children = Map.empty, next_pid = 100,
      programs = {''python3''}, term_delay = (\<lambda>p. 3), sig_denied = {},
      signals = [], clock = 0, error_log = []\<rparr>"

text \<open>The metadata of a project \<open>alpha\<close> recorded as running with pid 7.\<close>

definition alpha_running :: metadata where
  "alpha_running =
     [''name'' \<mapsto> Str ''alpha'', ''path'' \<mapsto> Str ''projects/alpha'',
      ''run_command'' \<mapsto> Str ''python3 bot.py'', ''created_at'' \<mapsto> Num 0,
      ''status'' \<mapsto> Str ''running'', ''pid'' \<mapsto> Num 7]"

text \<open>
  Project \<open>alpha\<close> with its directories, a log of three lines, and a child with pid 7
  that is executing and exits three time units after a termination request.
\<close>

definition alpha_live :: state where
  "alpha_live =
     \<lparr>processes = [''alpha'' \<mapsto> 7], project_configs = [''alpha'' \<mapsto> alpha_running],
      dirs = {''projects'', ''logs'', ''projects/alpha'', ''logs/alpha''},
      files = [''logs/alpha/output.log'' \<mapsto>
                 [''one'' @ [CHR 0x0A], ''two'' @ [CHR 0x0A], ''three'' @ [CHR 0x0A]]],
      denied = {},
      projects_json = Some [''alpha'' \<mapsto> alpha_running],
      children = [7 \<mapsto> \<lparr>argv = [''python3'', ''bot.py''], cwd = ''projects/alpha'',
                          out_path = ''logs/alpha/output.log'', running = True\<rparr>],
      next_pid = 8, programs = {''python3''}, term_delay = (\<lambda>p. 3), sig_denied = {},
      signals = [], clock = 0, error_log = []\<rparr>"

text \<open>The same after the child has exited on its own.\<close>

definition alpha_dead :: state where
  "alpha_dead = child_exits 7 alpha_live"



text \<open>A machine on which project \<open>alpha\<close> has just been created.\<close>

definition alpha_created :: state where
  "alpha_created = snd (create_project ''alpha'' fresh)"


section \<open>Log tail: properties\<close>

lemma slice_from_tail: "0 < k \<Longrightarrow> slice_from xs (- k) = drop (length xs - nat k) xs"
  unfolding slice_from_def Let_def
  by (auto simp: max_def nat_diff_distrib' intro!: arg_cong[where f="\<lambda>n. drop n xs"])

text \<open>
  For a positive count the tail is the last \<open>k\<close> lines in order (all of them when the
  file has no more than \<open>k\<close>), and the fixed text for an empty file.
\<close>

lemma get_project_logs_tail:
  assumes "files s (log_file_of name) = Some ls"
    and "log_file_of name \<notin> dirs s" and "log_file_of name \<notin> denied s"
    and "0 < k"
  shows "get_project_logs name k s =
           (if concat (drop (length ls - nat k) ls) = [] then ''Logs are empty''
            else concat (drop (length ls - nat k) ls))"
  using assms
  by (simp add: get_project_logs_def path_exists_def read_lines_def slice_from_tail Let_def)

lemma get_project_logs_absent:
  "\<not> path_exists s (log_file_of name) \<Longrightarrow> get_project_logs name k s = ''No logs found''"
  by (simp add: get_project_logs_def)

text \<open>
  C5. The tail of count \<open>k\<close> is claimed to be exactly the last \<open>k\<close> lines whenever \<open>k\<close> is
  below the number of lines. At count 0 on the three-line log of \<open>alpha\<close> the slice
  \<open>log_lines[-0:]\<close> is the whole list, and all three lines come back.
\<close>

theorem get_project_logs_zero_count:
  "get_project_logs ''alpha'' 0 alpha_live =
     ''one'' @ [CHR 0x0A] @ ''two'' @ [CHR 0x0A] @ ''three'' @ [CHR 0x0A]"
  by (simp add: get_project_logs_def alpha_live_def log_file_of_def path_join_def LOGS_DIR_def
      path_exists_def read_lines_def slice_from_def)

section \<open>Basic facts about the operations\<close>

lemmas path_defs = PROJECTS_DIR_def LOGS_DIR_def path_join_def config_file_def log_file_of_def

lemma save_projects_fields [simp]:
  "processes (save_projects s) = processes s"
  "project_configs (save_projects s) = project_configs s"
  "dirs (save_projects s) = dirs s"
  "files (save_projects s) = files s"
  "denied (save_projects s) = denied s"
  "children (save_projects s) = children s"
  "next_pid (save_projects s) = next_pid s"
  "programs (save_projects s) = programs s"
  "term_delay (save_projects s) = term_delay s"
  "sig_denied (save_projects s) = sig_denied s"
  "signals (save_projects s) = signals s"
  "clock (save_projects s) = clock s"
  by (simp_all add: save_projects_def logger_error_def)

lemma save_projects_json:
  "projects_json (save_projects s) =
     (if config_file \<in> denied s then projects_json s else Some (project_configs s))"
  by (simp add: save_projects_def logger_error_def)

lemma save_projects_error_log:
  "error_log (save_projects s) =
     (if config_file \<in> denied s
      then error_log s @ [''Error saving projects: '' @ exn_str (PermissionError config_file)]
      else error_log s)"
  by (simp add: save_projects_def logger_error_def)

lemma poll_is_None_save [simp]: "poll_is_None (save_projects s) h = poll_is_None s h"
  by (simp add: poll_is_None_def)

lemma poll_is_None_exited: "poll_is_None (exited h s) p = (p \<noteq> h \<and> poll_is_None s p)"
  by (auto simp: poll_is_None_def exited_def split: option.splits)

lemma terminate_child_live:
  assumes "poll_is_None s h" and "h \<notin> sig_denied s"
  shows "terminate_child h s =
           (Inr (),
            exited h
              (s\<lparr>signals := signals s @
                    (if term_delay s h \<le> grace_period then [(h, SIGTERM)]
                     else [(h, SIGTERM), (h, SIGKILL)]),
                 clock := clock s + min (term_delay s h) grace_period\<rparr>))"
  using assms
  by (simp add: terminate_child_def send_signal_def wait_timeout_def wait_killed_def
      exited_def min_def)

lemma terminate_child_denied:
  assumes "poll_is_None s h" and "h \<in> sig_denied s"
  shows "terminate_child h s = (Inl SignalNotPermitted, s)"
  using assms by (simp add: terminate_child_def send_signal_def)

lemma terminate_child_dead:
  "\<not> poll_is_None s h \<Longrightarrow> terminate_child h s = (Inr (), s)"
  by (simp add: terminate_child_def)

lemma del_if_present: "(if f k \<noteq> None then f(k := None) else f) = f(k := None)"
  by (auto intro!: ext)

lemma stop_bookkeeping_known:
  assumes "project_configs s name = Some cfg"
  shows "stop_bookkeeping name s =
           (Inr (),
            save_projects
              (s\<lparr>processes := (processes s)(name := None),
                 project_configs :=
                   (project_configs s)(name \<mapsto> (cfg(''status'' \<mapsto> Str ''stopped''))(''pid'' := None))\<rparr>))"
  using assms by (simp only: stop_bookkeeping_def Let_def del_if_present) simp

lemma stop_bookkeeping_unknown:
  assumes "project_configs s name = None"
  shows "stop_bookkeeping name s = (Inl (KeyError name), s\<lparr>processes := (processes s)(name := None)\<rparr>)"
  using assms by (simp add: stop_bookkeeping_def Let_def)

lemma alpha_live_simps:
  "processes alpha_live ''alpha'' = Some 7" "poll_is_None alpha_live 7"
  "project_configs alpha_live ''alpha'' = Some alpha_running"
  "config_file \<notin> denied alpha_live" "7 \<notin> sig_denied alpha_live"
  "term_delay alpha_live 7 = 3" "signals alpha_live = []" "clock alpha_live = 0"
  by (simp_all add: alpha_live_def poll_is_None_def)


lemma alpha_dead_simps:
  "processes alpha_dead ''alpha'' = Some 7" "\<not> poll_is_None alpha_dead 7"
  "project_configs alpha_dead ''alpha'' = Some alpha_running"
  "signals alpha_dead = []" "clock alpha_dead = 0"
  by (simp_all add: alpha_dead_def child_exits_def exited_def alpha_live_def poll_is_None_def)


section \<open>Stop\<close>




text \<open>
  C10. When the name has an entry whose child has already exited (and the project is in
  the store, as the data model demands of every name in the table), \<open>stop_project\<close>
  reports success without sending a signal or waiting, removes the entry, sets the status
  to \<open>stopped\<close> and removes \<open>pid\<close>. The reply is the not-running failure exactly when the
  name has no entry, and then the state is returned as it was.
\<close>

theorem stop_project_dead_entry:
  "(processes s name = Some h \<and> \<not> poll_is_None s h \<and> project_configs s name \<noteq> None \<longrightarrow>
      fst (stop_project name s) = (True, StoppedSuccessfully) \<and>
      signals (snd (stop_project name s)) = signals s \<and>
      children (snd (stop_project name s)) = children s \<and>
      clock (snd (stop_project name s)) = clock s \<and>
      processes (snd (stop_project name s)) name = None \<and>
      (\<exists>cfg. project_configs (snd (stop_project name s)) name = Some cfg \<and>
             cfg ''status'' = Some (Str ''stopped'') \<and> cfg ''pid'' = None)) \<and>
   (fst (stop_project name s) = (False, NotRunning) \<longleftrightarrow> processes s name = None) \<and>
   (processes s name = None \<longrightarrow> snd (stop_project name s) = s)"
proof -
  have a: "fst (stop_project name s) = (True, StoppedSuccessfully) \<and>
      signals (snd (stop_project name s)) = signals s \<and>
      children (snd (stop_project name s)) = children s \<and>
      clock (snd (stop_project name s)) = clock s \<and>
      processes (snd (stop_project name s)) name = None \<and>
      (\<exists>cfg. project_configs (snd (stop_project name s)) name = Some cfg \<and>
             cfg ''status'' = Some (Str ''stopped'') \<and> cfg ''pid'' = None)"
    if "processes s name = Some h" "\<not> poll_is_None s h" "project_configs s name \<noteq> None"
  proof -
    from that(3) obtain cfg where cfg: "project_configs s name = Some cfg" by blast
    have "stop_project name s =
            ((True, StoppedSuccessfully),
             save_projects
              (s\<lparr>processes := (processes s)(name := None),
                 project_configs :=
                   (project_configs s)(name \<mapsto> (cfg(''status'' \<mapsto> Str ''stopped''))(''pid'' := None))\<rparr>))"
      using that(1,2) cfg
      by (simp add: stop_project_def terminate_child_dead stop_bookkeeping_known)
    then show ?thesis by simp
  qed
  have b: "(fst (stop_project name s) = (False, NotRunning)) = (processes s name = None)"
    by (auto simp: stop_project_def split: option.splits prod.splits sum.splits)
  have c: "processes s name = None \<longrightarrow> snd (stop_project name s) = s"
    by (simp add: stop_project_def)
  from a b c show ?thesis by blast
qed


theorem stop_project_dead_entry_witness:
  "processes alpha_dead ''alpha'' = Some 7 \<and> \<not> poll_is_None alpha_dead 7 \<and>
   project_configs alpha_dead ''alpha'' \<noteq> None \<and>
   fst (stop_project ''alpha'' alpha_dead) = (True, StoppedSuccessfully) \<and>
   signals (snd (stop_project ''alpha'' alpha_dead)) = [] \<and>
   processes (snd (stop_project ''alpha'' alpha_dead)) ''alpha'' = None \<and>
   processes fresh ''alpha'' = None \<and>
   stop_project ''alpha'' fresh = ((False, NotRunning), fresh)"
proof -
  have f: "processes fresh ''alpha'' = None" by (simp add: fresh_def)
  from stop_project_dead_entry [of alpha_dead "''alpha''" 7]
       stop_project_dead_entry [of fresh "''alpha''" 7] f alpha_dead_simps
  show ?thesis by (simp add: prod_eq_iff)
qed


section \<open>Status\<close>

text \<open>What a status query does on finding an entry whose child has exited.\<close>

lemma get_project_status_dead_entry:
  assumes "project_configs s name = Some cfg" and "processes s name = Some h"
    and "\<not> poll_is_None s h"
  shows "get_project_status name s =
           (StatusStopped,
            save_projects
              (s\<lparr>processes := (processes s)(name := None),
                 project_configs :=
                   (project_configs s)(name \<mapsto> cfg(''status'' \<mapsto> Str ''stopped''))\<rparr>))"
  using assms by (simp add: get_project_status_def)

text \<open>
  C4. The status query on \<open>alpha\<close>, whose child with pid 7 has exited: the answer is
  Stopped, the entry is evicted, the status becomes \<open>stopped\<close> and the collection is saved,
  but the metadata still has \<open>pid\<close> 7. Only \<open>stop_project\<close> deletes the key.
\<close>

theorem get_project_status_keeps_pid:
  "fst (get_project_status ''alpha'' alpha_dead) = StatusStopped \<and>
   processes (snd (get_project_status ''alpha'' alpha_dead)) ''alpha'' = None \<and>
   project_configs (snd (get_project_status ''alpha'' alpha_dead)) ''alpha'' =
     Some (alpha_running(''status'' \<mapsto> Str ''stopped'')) \<and>
   (alpha_running(''status'' \<mapsto> Str ''stopped'')) ''pid'' = Some (Num 7) \<and>
   projects_json (snd (get_project_status ''alpha'' alpha_dead)) =
     Some (project_configs (snd (get_project_status ''alpha'' alpha_dead)))"
  by (simp add: get_project_status_def alpha_dead_simps save_projects_json alpha_running_def)
    (simp add: alpha_dead_def child_exits_def exited_def alpha_live_def path_defs)



section \<open>Start\<close>

lemma mkdir_exist_ok_Inr:
  "mkdir_exist_ok p s = Inr s1 \<Longrightarrow> s1 = s\<lparr>dirs := insert p (dirs s)\<rparr>"
  by (auto simp: mkdir_exist_ok_def insert_absorb split: if_splits)

lemma open_w_Inr: "open_w p s = Inr s2 \<Longrightarrow> s2 = s\<lparr>files := (files s)(p \<mapsto> [])\<rparr>"
  by (auto simp: open_w_def split: if_splits)

lemma Popen_Inr:
  "Popen args dir out s = Inr (p, s3) \<Longrightarrow>
     p = next_pid s \<and>
     s3 = s\<lparr>children :=
             (children s)(p \<mapsto> \<lparr>argv = args, cwd = dir, out_path = out, running = True\<rparr>),
           next_pid := Suc p\<rparr>"
  by (auto simp: Popen_def Let_def split: list.splits if_splits)

lemma start_body_success:
  assumes "start_body name s = (Inr p, s')"
  shows "p = next_pid s \<and>
         (\<exists>cfg. project_configs s name = Some cfg \<and>
            project_configs s' =
              (project_configs s)
                (name \<mapsto> cfg(''status'' \<mapsto> Str ''running'', ''pid'' \<mapsto> Num p))) \<and>
         processes s' = (processes s)(name \<mapsto> p) \<and>
         (\<exists>c. children s' = (children s)(p \<mapsto> c) \<and> running c \<and>
              out_path c = log_file_of name) \<and>
         next_pid s' = Suc p \<and>
         files s' = (files s)(log_file_of name \<mapsto> []) \<and>
         denied s' = denied s \<and> signals s' = signals s \<and> clock s' = clock s \<and>
         projects_json s' =
           (if config_file \<in> denied s then projects_json s else Some (project_configs s')) \<and>
         error_log s' =
           (if config_file \<in> denied s
            then error_log s @ [''Error saving projects: '' @ exn_str (PermissionError config_file)]
            else error_log s)"
  using assms
  unfolding start_body_def Let_def log_file_of_def
  by (auto simp: save_projects_json save_projects_error_log
      split: sum.splits option.splits val.splits prod.splits
      dest!: mkdir_exist_ok_Inr open_w_Inr Popen_Inr)

lemma start_body_failure:
  assumes "start_body name s = (Inl e, s')"
  shows "processes s' = processes s \<and> project_configs s' = project_configs s \<and>
         children s' = children s \<and> next_pid s' = next_pid s \<and>
         projects_json s' = projects_json s \<and> denied s' = denied s \<and>
         signals s' = signals s \<and> clock s' = clock s"
  using assms
  unfolding start_body_def Let_def
  by (auto split: sum.splits option.splits val.splits prod.splits
      dest!: mkdir_exist_ok_Inr open_w_Inr Popen_Inr)

lemma start_project_success:
  assumes "start_project name s = ((True, m), s')"
  shows "\<not> has_live_entry s name \<and> m = StartedWithPID (next_pid s) \<and>
         start_body name s = (Inr (next_pid s), s')"
  using assms
  unfolding start_project_def has_live_entry_def
  by (auto split: if_splits sum.splits prod.splits dest: start_body_success)

lemma start_project_failure:
  assumes "start_project name s = ((False, m), s')"
  shows "processes s' = processes s \<and> project_configs s' = project_configs s \<and>
         children s' = children s \<and> next_pid s' = next_pid s \<and>
         projects_json s' = projects_json s \<and> denied s' = denied s \<and>
         signals s' = signals s \<and> clock s' = clock s"
  using assms
  unfolding start_project_def
  by (auto simp: logger_error_def split: if_splits sum.splits prod.splits dest: start_body_failure)

lemma log_file_of_inj: "log_file_of n = log_file_of m \<Longrightarrow> n = m"
  by (simp add: log_file_of_def path_join_def)

lemma start_project_live_entry:
  assumes "project_exists s name" and "has_live_entry s name"
  shows "start_project name s = ((False, AlreadyRunning), s)"
  using assms by (simp add: start_project_def has_live_entry_def)

lemma start_project_then_live:
  assumes "start_project name s = ((True, m), s1)"
  shows "project_exists s1 name \<and> has_live_entry s1 name"
proof -
  from start_project_success [OF assms]
  have "start_body name s = (Inr (next_pid s), s1)" by simp
  from start_body_success [OF this]
  show ?thesis
    by (auto simp: project_exists_def has_live_entry_def poll_is_None_def)
qed

lemma start_project_live_children:
  assumes "start_project name s = ((True, m), s1)" and "consistent s"
  shows "live_children_of s1 name = {next_pid s}"
proof -
  from start_project_success [OF assms(1)]
  have nl: "\<not> has_live_entry s name" and b: "start_body name s = (Inr (next_pid s), s1)"
    by simp_all
  from start_body_success [OF b] obtain c where
    c: "children s1 = (children s)(next_pid s \<mapsto> c)" "running c" "out_path c = log_file_of name"
    by blast
  have "q = next_pid s" if q: "q \<in> live_children_of s1 name" for q
  proof (rule ccontr)
    assume ne: "q \<noteq> next_pid s"
    with q c(1) obtain c' where
      c': "children s q = Some c'" "running c'" "out_path c' = log_file_of name"
      by (auto simp: live_children_of_def)
    with assms(2) obtain n where n: "processes s n = Some q" "out_path c' = log_file_of n"
      unfolding consistent_def by blast
    with c'(3) have "n = name" by (simp add: log_file_of_inj)
    with n(1) c'(1,2) have "has_live_entry s name"
      by (simp add: has_live_entry_def poll_is_None_def)
    with nl show False by simp
  qed
  moreover have "next_pid s \<in> live_children_of s1 name"
    using c by (simp add: live_children_of_def)
  ultimately show ?thesis by blast
qed

lemma alpha_created_eq:
  "alpha_created =
     fresh\<lparr>dirs := {''projects/alpha'', ''projects'', ''logs''},
           project_configs := [''alpha'' \<mapsto> new_metadata ''alpha'' ''projects/alpha'' 0],
           projects_json := Some [''alpha'' \<mapsto> new_metadata ''alpha'' ''projects/alpha'' 0]\<rparr>"
  by (simp add: alpha_created_def create_project_def mkdir_exist_ok_def fresh_def path_defs
      save_projects_def Let_def)

lemma alpha_created_fields:
  "processes alpha_created = Map.empty"
  "project_configs alpha_created = [''alpha'' \<mapsto> new_metadata ''alpha'' ''projects/alpha'' 0]"
  "children alpha_created = Map.empty"
  "next_pid alpha_created = 100"
  by (simp_all add: alpha_created_eq fresh_def)

lemma consistent_alpha_created: "consistent alpha_created"
  by (simp add: consistent_def alpha_created_fields status_running_def has_live_entry_def
      new_metadata_def)

lemma split_ws_default: "split_ws default_run_command = [''python3'', ''main.py'']"
  by (simp add: split_ws_def default_run_command_def is_space_def)

lemma start_alpha_created:
  "fst (start_project ''alpha'' alpha_created) = (True, StartedWithPID 100)"
  by (simp add: start_project_def project_exists_def alpha_created_fields start_body_def
      get_project_path_def new_metadata_def split_ws_default Let_def)
    (simp add: alpha_created_eq fresh_def mkdir_exist_ok_def open_w_def Popen_def path_defs
      split_ws_default Let_def)


lemma alpha_dead_fields:
  "project_configs alpha_dead = [''alpha'' \<mapsto> alpha_running]"
  "dirs alpha_dead = {''projects'', ''logs'', ''projects/alpha'', ''logs/alpha''}"
  "files alpha_dead (log_file_of ''alpha'') =
     Some [''one'' @ [CHR 0x0A], ''two'' @ [CHR 0x0A], ''three'' @ [CHR 0x0A]]"
  "denied alpha_dead = {}" "programs alpha_dead = {''python3''}" "next_pid alpha_dead = 8"
  by (simp_all add: alpha_dead_def child_exits_def exited_def alpha_live_def path_defs)

lemma start_alpha_dead:
  "fst (start_project ''alpha'' alpha_dead) = (True, StartedWithPID 8)"
  by (simp add: start_project_def project_exists_def alpha_dead_simps alpha_dead_fields
      start_body_def get_project_path_def alpha_running_def Let_def mkdir_exist_ok_def
      open_w_def Popen_def path_defs split_ws_def is_space_def)

lemma start_alpha_dead_pair:
  "start_project ''alpha'' alpha_dead =
     ((True, StartedWithPID 8), snd (start_project ''alpha'' alpha_dead))"
  using start_alpha_dead by (simp add: prod_eq_iff)


text \<open>
  C2. Starting a project that is in the store and has a live Process Table entry fails
  with the already-running reply and returns the state as it was: no child is launched and
  table, metadata, files and disk are untouched. Hence, when a start succeeds, a second
  start right after it gets the already-running reply and changes nothing; the two calls
  have added exactly one child, and from a consistent state that child is the only
  executing child of the project.
\<close>

theorem start_project_already_running:
  "(project_exists s name \<and> has_live_entry s name \<longrightarrow>
      start_project name s = ((False, AlreadyRunning), s)) \<and>
   (\<forall>m s1. start_project name s = ((True, m), s1) \<longrightarrow>
      start_project name s1 = ((False, AlreadyRunning), s1) \<and>
      (\<exists>c. children s1 = (children s)(next_pid s \<mapsto> c)) \<and>
      (consistent s \<longrightarrow> live_children_of s1 name = {next_pid s}))"
proof (intro conjI allI impI)
  assume "project_exists s name \<and> has_live_entry s name"
  then show "start_project name s = ((False, AlreadyRunning), s)"
    by (simp add: start_project_live_entry)
next
  fix m s1
  assume a: "start_project name s = ((True, m), s1)"
  from start_project_then_live [OF a]
  show "start_project name s1 = ((False, AlreadyRunning), s1)"
    by (simp add: start_project_live_entry)
  from start_project_success [OF a]
  have "start_body name s = (Inr (next_pid s), s1)" by simp
  from start_body_success [OF this]
  show "\<exists>c. children s1 = (children s)(next_pid s \<mapsto> c)" by blast
  assume "consistent s"
  with a show "live_children_of s1 name = {next_pid s}"
    by (rule start_project_live_children)
qed


theorem start_project_already_running_witness:
  "project_exists alpha_live ''alpha'' \<and> has_live_entry alpha_live ''alpha'' \<and>
   start_project ''alpha'' alpha_live = ((False, AlreadyRunning), alpha_live) \<and>
   consistent alpha_created \<and>
   fst (start_project ''alpha'' alpha_created) = (True, StartedWithPID 100) \<and>
   fst (start_project ''alpha'' (snd (start_project ''alpha'' alpha_created))) =
     (False, AlreadyRunning) \<and>
   live_children_of (snd (start_project ''alpha'' alpha_created)) ''alpha'' = {100}"
proof -
  have h1: "project_exists alpha_live ''alpha'' \<and> has_live_entry alpha_live ''alpha''"
    by (simp add: project_exists_def has_live_entry_def alpha_live_simps)
  have h2: "start_project ''alpha'' alpha_created =
              ((True, StartedWithPID 100), snd (start_project ''alpha'' alpha_created))"
    using start_alpha_created by (simp add: prod_eq_iff)
  from start_project_already_running [of alpha_live "''alpha''"]
       start_project_already_running [of alpha_created "''alpha''"]
       h1 h2 consistent_alpha_created
  show ?thesis by (simp add: alpha_created_fields start_alpha_created)
qed

text \<open>
  C7, as the code has it. A successful start leaves the log file of the project empty:
  the file is opened with mode \<open>'w'\<close>, which discards what earlier runs wrote.
\<close>

theorem start_project_truncates_log:
  "start_project name s = ((True, m), s') \<Longrightarrow> files s' (log_file_of name) = Some []"
proof -
  assume a: "start_project name s = ((True, m), s')"
  from start_project_success [OF a]
  have "start_body name s = (Inr (next_pid s), s')" by simp
  from start_body_success [OF this] show ?thesis by simp
qed


theorem start_project_truncates_log_witness:
  "start_project ''alpha'' alpha_dead =
     ((True, StartedWithPID 8), snd (start_project ''alpha'' alpha_dead)) \<and>
   files (snd (start_project ''alpha'' alpha_dead)) (log_file_of ''alpha'') = Some []"
  using start_project_truncates_log [OF start_alpha_dead_pair] start_alpha_dead_pair
  by blast


text \<open>
  C7 as stated fails. The log of \<open>alpha\<close> holds three lines from an earlier run; a new
  start succeeds and the file is empty afterwards.
\<close>

theorem start_project_log_counterexample:
  "files alpha_dead (log_file_of ''alpha'') =
     Some [''one'' @ [CHR 0x0A], ''two'' @ [CHR 0x0A], ''three'' @ [CHR 0x0A]] \<and>
   fst (start_project ''alpha'' alpha_dead) = (True, StartedWithPID 8) \<and>
   files (snd (start_project ''alpha'' alpha_dead)) (log_file_of ''alpha'') = Some []"
proof -
  from start_project_success [OF start_alpha_dead_pair]
  have "start_body ''alpha'' alpha_dead = (Inr 8, snd (start_project ''alpha'' alpha_dead))"
    by (simp add: alpha_dead_fields)
  from start_body_success [OF this]
  have "files (snd (start_project ''alpha'' alpha_dead)) (log_file_of ''alpha'') = Some []"
    by simp
  then show ?thesis by (simp add: alpha_dead_fields start_alpha_dead)
qed


section \<open>Restart\<close>








section \<open>Frames of stop and delete\<close>

lemma exited_dead: "\<not> poll_is_None s h \<Longrightarrow> children (exited h s) = children s"
  by (auto simp: exited_def poll_is_None_def intro!: ext split: option.splits)

lemma exited_fields [simp]:
  "processes (exited h s) = processes s"
  "project_configs (exited h s) = project_configs s"
  "dirs (exited h s) = dirs s"
  "files (exited h s) = files s"
  "denied (exited h s) = denied s"
  "projects_json (exited h s) = projects_json s"
  "next_pid (exited h s) = next_pid s"
  "sig_denied (exited h s) = sig_denied s"
  "signals (exited h s) = signals s"
  "clock (exited h s) = clock s"
  "error_log (exited h s) = error_log s"
  by (simp_all add: exited_def)

lemma terminate_child_frame:
  assumes "terminate_child h s = (r, s1)"
  shows "processes s1 = processes s \<and> project_configs s1 = project_configs s \<and>
         denied s1 = denied s \<and> projects_json s1 = projects_json s \<and>
         next_pid s1 = next_pid s \<and> error_log s1 = error_log s \<and>
         children s1 = (case r of Inl e \<Rightarrow> children s | Inr u \<Rightarrow> children (exited h s))"
proof (cases "poll_is_None s h")
  case False
  with assms show ?thesis by (auto simp: terminate_child_dead exited_dead)
next
  case True
  show ?thesis
  proof (cases "h \<in> sig_denied s")
    case True
    with \<open>poll_is_None s h\<close> assms show ?thesis by (auto simp: terminate_child_denied)
  next
    case False
    with \<open>poll_is_None s h\<close> assms show ?thesis
      by (auto simp: terminate_child_live exited_def)
  qed
qed

lemma stop_project_success:
  assumes "stop_project name s = ((True, m), s')"
  shows "\<exists>h cfg. processes s name = Some h \<and> project_configs s name = Some cfg \<and>
           processes s' = (processes s)(name := None) \<and>
           project_configs s' =
             (project_configs s)(name \<mapsto> (cfg(''status'' \<mapsto> Str ''stopped''))(''pid'' := None)) \<and>
           children s' = children (exited h s) \<and>
           next_pid s' = next_pid s \<and> denied s' = denied s \<and>
           projects_json s' =
             (if config_file \<in> denied s then projects_json s else Some (project_configs s')) \<and>
           error_log s' =
             (if config_file \<in> denied s
              then error_log s @
                   [''Error saving projects: '' @ exn_str (PermissionError config_file)]
              else error_log s)"
proof -
  from assms obtain h where h: "processes s name = Some h"
    by (cases "processes s name") (auto simp: stop_project_def)
  obtain r s1 where t: "terminate_child h s = (r, s1)" by (cases "terminate_child h s") auto
  from assms h t obtain u where r: "r = Inr u"
    by (cases r) (auto simp: stop_project_def)
  note f = terminate_child_frame [OF t]
  from assms h t r f obtain cfg where cfg: "project_configs s name = Some cfg"
    by (cases "project_configs s name") (auto simp: stop_project_def stop_bookkeeping_unknown)
  with f have cfg1: "project_configs s1 name = Some cfg" by simp
  from assms h t r
  have "s' = save_projects
              (s1\<lparr>processes := (processes s1)(name := None),
                 project_configs :=
                   (project_configs s1)(name \<mapsto> (cfg(''status'' \<mapsto> Str ''stopped''))(''pid'' := None))\<rparr>)"
    by (simp add: stop_project_def stop_bookkeeping_known [OF cfg1])
  with h cfg f r show ?thesis
    by (simp add: save_projects_json save_projects_error_log)
qed

lemma stop_project_failure:
  assumes "stop_project name s = ((False, m), s')"
    and "processes s name \<noteq> None \<longrightarrow> project_configs s name \<noteq> None"
  shows "processes s' = processes s \<and> project_configs s' = project_configs s \<and>
         children s' = children s \<and> next_pid s' = next_pid s"
proof (cases "processes s name")
  case None
  with assms show ?thesis by (simp add: stop_project_def)
next
  case (Some h)
  with assms(2) obtain cfg where cfg: "project_configs s name = Some cfg" by auto
  obtain r s1 where t: "terminate_child h s = (r, s1)" by (cases "terminate_child h s") auto
  note f = terminate_child_frame [OF t]
  from f cfg have cfg1: "project_configs s1 name = Some cfg" by simp
  show ?thesis
  proof (cases r)
    case (Inl e)
    with assms(1) Some t f show ?thesis
      by (auto simp: stop_project_def logger_error_def)
  next
    case (Inr u)
    with assms(1) Some t show ?thesis
      by (simp add: stop_project_def stop_bookkeeping_known [OF cfg1])
  qed
qed

lemma rmtree_Inr:
  "rmtree d s = Inr s1 \<Longrightarrow>
     processes s1 = processes s \<and> project_configs s1 = project_configs s \<and>
     denied s1 = denied s \<and> projects_json s1 = projects_json s \<and>
     error_log s1 = error_log s \<and> children s1 = children s \<and> next_pid s1 = next_pid s"
  by (auto simp: rmtree_def split: if_splits)

lemma rmtree_if_exists:
  assumes "(if path_exists s d then rmtree d s else Inr s) = Inr s1"
  shows "processes s1 = processes s \<and> project_configs s1 = project_configs s \<and>
     denied s1 = denied s \<and> projects_json s1 = projects_json s \<and>
     error_log s1 = error_log s \<and> children s1 = children s \<and> next_pid s1 = next_pid s"
proof (cases "path_exists s d")
  case True
  with assms have "rmtree d s = Inr s1" by simp
  then show ?thesis by (rule rmtree_Inr)
next
  case False
  with assms show ?thesis by simp
qed


section \<open>Create\<close>

lemma create_project_existing:
  assumes "path_join PROJECTS_DIR name \<in> dirs s"
  shows "create_project name s =
           (True,
            save_projects
              (s\<lparr>project_configs :=
                   (project_configs s)
                     (name \<mapsto> new_metadata name (path_join PROJECTS_DIR name) (clock s))\<rparr>))"
  using assms by (simp add: create_project_def mkdir_exist_ok_def Let_def)

lemma alpha_live_more:
  "project_exists alpha_live ''alpha''" "''projects/alpha'' \<in> dirs alpha_live"
  "clock alpha_live = 0"
  by (simp_all add: alpha_live_def project_exists_def)

lemma valid_alpha: "strip '' alpha '' = ''alpha''" "valid_project_name ''alpha''"
  by (simp_all add: strip_def is_space_def valid_project_name_def isalnum_def is_alnum_char_def)

lemma create_project_success:
  assumes "create_project name s = (True, s')"
  shows "denied s' = denied s \<and>
         project_configs s' =
           (project_configs s)(name \<mapsto> new_metadata name (path_join PROJECTS_DIR name) (clock s)) \<and>
         processes s' = processes s \<and> children s' = children s \<and>
         projects_json s' =
           (if config_file \<in> denied s then projects_json s else Some (project_configs s')) \<and>
         error_log s' =
           (if config_file \<in> denied s
            then error_log s @
                 [''Error saving projects: '' @ exn_str (PermissionError config_file)]
            else error_log s)"
proof -
  from assms obtain s1 where m: "mkdir_exist_ok (path_join PROJECTS_DIR name) s = Inr s1"
    by (cases "mkdir_exist_ok (path_join PROJECTS_DIR name) s")
      (simp_all add: create_project_def Let_def)
  from mkdir_exist_ok_Inr [OF m]
  have s1: "s1 = s\<lparr>dirs := insert (path_join PROJECTS_DIR name) (dirs s)\<rparr>" .
  from assms m
  have "s' = save_projects
               (s1\<lparr>project_configs :=
                     (project_configs s1)
                       (name \<mapsto> new_metadata name (path_join PROJECTS_DIR name) (clock s1))\<rparr>)"
    by (simp add: create_project_def Let_def)
  then show ?thesis
    by (simp add: s1 save_projects_json save_projects_error_log)
qed










text \<open>
  C6, as the code has it. \<open>create_project\<close> makes no test for a name in use: for a project
  in the store whose directory exists it reports success and replaces the metadata with
  the defaults of a new project. The rejection of a name in use is made by the caller,
  \<open>handle_text_input\<close>: for a valid name that is in the store it answers that the project
  already exists, does not call \<open>create_project\<close>, and leaves the whole state as it was.
\<close>

theorem create_project_overwrites:
  "(project_exists s name \<and> path_join PROJECTS_DIR name \<in> dirs s \<longrightarrow>
      fst (create_project name s) = True \<and>
      project_configs (snd (create_project name s)) name =
        Some (new_metadata name (path_join PROJECTS_DIR name) (clock s))) \<and>
   (valid_project_name (strip text) \<and> project_exists s (strip text) \<longrightarrow>
      handle_new_project text s = (AlreadyExists, s))"
  by (simp add: create_project_existing handle_new_project_def Let_def)


theorem create_project_overwrites_witness:
  "project_exists alpha_live ''alpha'' \<and> path_join PROJECTS_DIR ''alpha'' \<in> dirs alpha_live \<and>
   fst (create_project ''alpha'' alpha_live) = True \<and>
   project_configs (snd (create_project ''alpha'' alpha_live)) ''alpha'' =
     Some (new_metadata ''alpha'' ''projects/alpha'' 0) \<and>
   valid_project_name (strip '' alpha '') \<and> project_exists alpha_live (strip '' alpha '') \<and>
   handle_new_project '' alpha '' alpha_live = (AlreadyExists, alpha_live)"
  using create_project_overwrites [of alpha_live "''alpha''" "'' alpha ''"]
  by (simp add: alpha_live_more valid_alpha path_defs)


text \<open>
  C6 as stated fails. Project \<open>alpha\<close> is in the store with its own run command and the
  status \<open>running\<close>; \<open>create_project\<close> on that name reports success, and afterwards the run
  command is the default one and the status is \<open>stopped\<close>.
\<close>

theorem create_project_existing_counterexample:
  "project_exists alpha_live ''alpha'' \<and>
   project_configs alpha_live ''alpha'' = Some alpha_running \<and>
   alpha_running ''run_command'' = Some (Str ''python3 bot.py'') \<and>
   alpha_running ''status'' = Some (Str ''running'') \<and>
   fst (create_project ''alpha'' alpha_live) = True \<and>
   project_configs (snd (create_project ''alpha'' alpha_live)) ''alpha'' =
     Some (new_metadata ''alpha'' ''projects/alpha'' 0) \<and>
   new_metadata ''alpha'' ''projects/alpha'' 0 ''run_command'' = Some (Str ''python3 main.py'') \<and>
   new_metadata ''alpha'' ''projects/alpha'' 0 ''status'' = Some (Str ''stopped'')"
  by (simp add: alpha_live_more alpha_live_simps create_project_existing path_defs
      alpha_running_def new_metadata_def default_run_command_def)


section \<open>Persistence\<close>






section \<open>The table stays inside the store\<close>

text \<open>
  Every name in the Process Table is a name of the Project Store: this holds for a new
  manager and is kept by every operation and by a child exiting on its own.
\<close>

lemma delete_body_frame:
  assumes "delete_body name s = (r, s')"
  shows "processes s' = processes s \<and>
         project_configs s' =
           (case r of Inl e \<Rightarrow> project_configs s | Inr u \<Rightarrow> (project_configs s)(name := None))"
proof (cases "get_project_path name s")
  case (Inl e)
  with assms show ?thesis by (auto simp: delete_body_def)
next
  case (Inr project_path)
  note pp = this
  show ?thesis
  proof (cases "if path_exists s project_path then rmtree project_path s else Inr s")
    case (Inl e)
    with assms pp show ?thesis by (auto simp: delete_body_def)
  next
    case (Inr s1)
    note r1 = this
    note f1 = rmtree_if_exists [OF r1]
    show ?thesis
    proof (cases "if path_exists s1 (path_join LOGS_DIR name)
                  then rmtree (path_join LOGS_DIR name) s1 else Inr s1")
      case (Inl e)
      with assms pp r1 f1 show ?thesis by (auto simp: delete_body_def Let_def)
    next
      case (Inr s2)
      note f2 = rmtree_if_exists [OF Inr]
      show ?thesis
      proof (cases "project_configs s2 name")
        case None
        with f1 f2 have "(project_configs s)(name := None) = project_configs s"
          by (auto intro!: ext)
        with assms pp r1 Inr None f1 f2 show ?thesis
          by (auto simp: delete_body_def Let_def)
      next
        case (Some cfg)
        with assms pp r1 Inr f1 f2 show ?thesis
          by (auto simp: delete_body_def Let_def)
      qed
    qed
  qed
qed

lemma table_in_store_init: "table_in_store (init s)"
  by (simp add: table_in_store_def init_def load_projects_def logger_error_def
      split: option.splits)

lemma table_in_store_create_project:
  assumes "table_in_store s"
  shows "table_in_store (snd (create_project name s))"
proof (cases "fst (create_project name s)")
  case True
  then have "create_project name s = (True, snd (create_project name s))"
    by (simp add: prod_eq_iff)
  from create_project_success [OF this] assms show ?thesis
    by (simp add: table_in_store_def)
next
  case False
  then have "snd (create_project name s) =
               logger_error (''Error creating project '' @ name @ '': '' @
                 exn_str (case mkdir_exist_ok (path_join PROJECTS_DIR name) s of Inl e \<Rightarrow> e)) s"
    by (auto simp: create_project_def Let_def split: sum.splits)
  with assms show ?thesis by (simp add: table_in_store_def logger_error_def)
qed

lemma table_in_store_start_project:
  assumes "table_in_store s"
  shows "table_in_store (snd (start_project name s))"
proof -
  obtain ok m s' where r: "start_project name s = ((ok, m), s')" by (metis prod.exhaust)
  show ?thesis
  proof (cases ok)
    case True
    with r have r': "start_project name s = ((True, m), s')" by simp
    from start_project_success [OF r']
    have "start_body name s = (Inr (next_pid s), s')" by simp
    from start_body_success [OF this] assms have "table_in_store s'"
      by (auto simp: table_in_store_def)
    with r show ?thesis by simp
  next
    case False
    with r have "start_project name s = ((False, m), s')" by simp
    from start_project_failure [OF this] assms r show ?thesis
      by (simp add: table_in_store_def)
  qed
qed

lemma table_in_store_stop_project:
  assumes "table_in_store s"
  shows "table_in_store (snd (stop_project name s))"
proof -
  obtain ok m s' where r: "stop_project name s = ((ok, m), s')" by (metis prod.exhaust)
  show ?thesis
  proof (cases ok)
    case True
    with r have "stop_project name s = ((True, m), s')" by simp
    from stop_project_success [OF this] assms have "table_in_store s'"
      by (auto simp: table_in_store_def)
    with r show ?thesis by simp
  next
    case False
    with r have f: "stop_project name s = ((False, m), s')" by simp
    from assms have "processes s name \<noteq> None \<longrightarrow> project_configs s name \<noteq> None"
      by (simp add: table_in_store_def)
    from stop_project_failure [OF f this] assms r show ?thesis
      by (simp add: table_in_store_def)
  qed
qed

lemma table_in_store_restart_project:
  assumes "table_in_store s"
  shows "table_in_store (snd (restart_project name s))"
proof -
  obtain ok m s1 where r: "stop_project name s = ((ok, m), s1)" by (metis prod.exhaust)
  from table_in_store_stop_project [OF assms, of name] r have c1: "table_in_store s1" by simp
  then have "table_in_store (sleep restart_pause s1)"
    by (simp add: table_in_store_def sleep_def)
  then have "table_in_store (snd (start_project name (sleep restart_pause s1)))"
    by (rule table_in_store_start_project)
  with r c1 show ?thesis by (simp add: restart_project_def)
qed

lemma table_in_store_get_project_status:
  assumes "table_in_store s"
  shows "table_in_store (snd (get_project_status name s))"
  using assms
  by (auto simp: table_in_store_def get_project_status_def split: option.splits)

lemma table_in_store_update_run_command:
  assumes "table_in_store s"
  shows "table_in_store (snd (update_run_command name command s))"
  using assms
  by (auto simp: table_in_store_def update_run_command_def split: option.splits)

lemma table_in_store_child_exits: "table_in_store (child_exits h s) = table_in_store s"
  by (simp add: table_in_store_def child_exits_def)

lemma table_in_store_delete_project:
  assumes "table_in_store s"
  shows "table_in_store (snd (delete_project name s))"
proof (cases "project_exists s name")
  case False
  with assms show ?thesis by (simp add: delete_project_def)
next
  case True
  define st where "st = (if processes s name \<noteq> None then stop_project name s
      else ((True, StoppedSuccessfully), s))"
  obtain ok m1 s1 where st': "st = ((ok, m1), s1)" by (metis prod.exhaust)
  have dp: "delete_project name s =
      (case st of
         ((False, message), s1) \<Rightarrow> ((False, UnableToStopBeforeDeletion message), s1)
       | ((True, message), s1) \<Rightarrow>
           (case delete_body name s1 of
              (Inl e, s2) \<Rightarrow>
                ((False, ErrorDeleting e),
                 logger_error (''Error deleting project '' @ name @ '': '' @ exn_str e) s2)
            | (Inr u, s2) \<Rightarrow> ((True, DeletedSuccessfully name), s2)))"
    using True by (simp add: delete_project_def st_def)
  have t1: "table_in_store s1"
    using table_in_store_stop_project [OF assms, of name] st' assms
    by (auto simp: st_def split: if_splits)
  show ?thesis
  proof (cases ok)
    case False
    with t1 show ?thesis
      unfolding dp st' by simp
  next
    case ok: True
    have gone: "processes s1 name = None"
    proof (cases "processes s name \<noteq> None")
      case True
      with st' ok have "stop_project name s = ((True, m1), s1)" by (simp add: st_def)
      from stop_project_success [OF this] show ?thesis by auto
    next
      case False
      with st' show ?thesis by (simp add: st_def)
    qed
    obtain r s2 where db: "delete_body name s1 = (r, s2)" by (metis prod.exhaust)
    from delete_body_frame [OF db] t1 gone have "table_in_store s2"
      by (cases r) (auto simp: table_in_store_def)
    with ok db show ?thesis
      unfolding dp st' by (cases r) (simp_all add: table_in_store_def logger_error_def)
  qed
qed

section \<open>Agreement of table, store and children\<close>














text \<open>A child that exits on its own leaves the stored status \<open>running\<close> behind.\<close>

lemma child_exit_leaves_status_running:
  "status_running (child_exits 7 alpha_live) ''alpha'' \<and>
   \<not> has_live_entry (child_exits 7 alpha_live) ''alpha''"
  by (simp add: status_running_def has_live_entry_def alpha_dead_simps [unfolded alpha_dead_def]
      alpha_running_def)







end
